theory Spec2Isabelle
  imports Complex_Main
begin

section \<open>Runtime values\<close>

text \<open>
  The coercers of \<^verbatim>\<open>src/coercion.ts\<close> inspect arbitrary JavaScript values
  (\<^verbatim>\<open>unknown\<close>). Only the distinctions the code makes are kept: the primitive
  \<^verbatim>\<open>typeof\<close> classes, arrays (\<^verbatim>\<open>Array.isArray\<close>), instances of the global
  \<^verbatim>\<open>File\<close> class with their \<^verbatim>\<open>name\<close> and \<^verbatim>\<open>size\<close>, \<^verbatim>\<open>Date\<close> objects with
  their time value (\<open>None\<close> is the \<^verbatim>\<open>NaN\<close> time value of an invalid date), and
  every other object as the list of its own properties.
\<close>

datatype number = NaN | Infinity | NegInfinity | Finite rat

datatype jsval =
    VUndefined
  | VNull
  | VBool bool
  | VNumber number
  | VBigInt int
  | VString string
  | VDate "int option"
  | VArray "jsval list"
  | VFile string nat
  | VObject "(string \<times> jsval) list"

datatype error = TypeError | SyntaxError

text \<open>
  The globals the module reads: whether a global \<^verbatim>\<open>File\<close> constructor exists
  (\<^verbatim>\<open>typeof File !== "undefined"\<close>), and the three built-in conversions it
  hands strings to. \<^verbatim>\<open>Number\<close> always returns a number, \<^verbatim>\<open>BigInt\<close> throws a
  \<^verbatim>\<open>SyntaxError\<close> on malformed text, and the time value of \<^verbatim>\<open>new Date(text)\<close> is
  \<^verbatim>\<open>NaN\<close> (\<open>None\<close>) when the text does not parse.
\<close>

record globals =
  File_defined :: bool
  Number :: "string \<Rightarrow> number"
  BigInt :: "string \<Rightarrow> error + int"
  Date_parse :: "string \<Rightarrow> int option"

text \<open>The \<^verbatim>\<open>typeof\<close> operator, and the text of a string value.\<close>

fun typeof :: "jsval \<Rightarrow> string" where
  "typeof VUndefined = ''undefined''"
| "typeof VNull = ''object''"
| "typeof (VBool b) = ''boolean''"
| "typeof (VNumber x) = ''number''"
| "typeof (VBigInt i) = ''bigint''"
| "typeof (VString text) = ''string''"
| "typeof (VDate d) = ''object''"
| "typeof (VArray xs) = ''object''"
| "typeof (VFile name sz) = ''object''"
| "typeof (VObject props) = ''object''"

fun string_of :: "jsval \<Rightarrow> string" where
  "string_of (VString text) = text"
| "string_of _ = ''''"

section \<open>Value coercers\<close>

text \<open>
  \<^verbatim>\<open>coerceString(value, transform?)\<close>, lines 34-51. The optional transform is
  \<open>None\<close> when \<^verbatim>\<open>typeof transform !== "function"\<close>; a transform may throw
  (\<open>Inl\<close>), and the exception propagates. \<open>string_of\<close> is only read on
  strings.
\<close>

definition coerceString :: "jsval \<Rightarrow> (string \<Rightarrow> error + jsval) option \<Rightarrow> error + jsval" where
  "coerceString value transform =
     (if typeof value \<noteq> ''string'' then Inr value
      else if value = VString '''' then Inr VUndefined
      else (case transform of
              None \<Rightarrow> Inr value
            | Some f \<Rightarrow> f (string_of value)))"

text \<open>\<^verbatim>\<open>file instanceof File\<close>: only \<open>VFile\<close> values are instances of the class.\<close>

fun instanceof_File :: "jsval \<Rightarrow> bool" where
  "instanceof_File (VFile name sz) = True"
| "instanceof_File _ = False"

fun file_name :: "jsval \<Rightarrow> string" where
  "file_name (VFile name sz) = name"
| "file_name _ = ''''"

fun file_size :: "jsval \<Rightarrow> nat" where
  "file_size (VFile name sz) = sz"
| "file_size _ = 0"

text \<open>
  \<^verbatim>\<open>coerceFile(file)\<close>, lines 57-68. The conjunction short-circuits, so \<open>file_name\<close>
  and \<open>file_size\<close> are only read on instances of \<^verbatim>\<open>File\<close>.
\<close>

definition coerceFile :: "globals \<Rightarrow> jsval \<Rightarrow> jsval" where
  "coerceFile g file =
     (if File_defined g \<and> instanceof_File file \<and> file_name file = '''' \<and> file_size file = 0
      then VUndefined
      else file)"

section \<open>Preprocessing steps\<close>

text \<open>
  Each arrow function that \<^verbatim>\<open>enableTypeCoercion\<close> hands to \<^verbatim>\<open>coerce\<close> is one
  constructor (the closures of lines 145, 155, 165, 175-187, 197 and 207-222; the
  wrapper and union branches reuse the closure of line 145), and \<open>apply_step\<close> is
  its body.
\<close>

datatype step = StepString | StepNumber | StepBoolean | StepDate | StepBigint | StepArray

fun getTime :: "jsval \<Rightarrow> int option" where
  "getTime (VDate time) = time"
| "getTime _ = None"

definition date_transform :: "globals \<Rightarrow> string \<Rightarrow> error + jsval" where
  "date_transform g timestamp =
     (let date = VDate (Date_parse g timestamp) in
      if getTime date = None then Inr (VString timestamp) else Inr date)"

definition boolean_transform :: "string \<Rightarrow> error + jsval" where
  "boolean_transform text = Inr (if text = ''on'' then VBool True else VString text)"

definition number_transform :: "globals \<Rightarrow> string \<Rightarrow> error + jsval" where
  "number_transform g text = Inr (VNumber (Number g text))"

definition bigint_transform :: "globals \<Rightarrow> string \<Rightarrow> error + jsval" where
  "bigint_transform g text =
     (case BigInt g text of Inl e \<Rightarrow> Inl e | Inr i \<Rightarrow> Inr (VBigInt i))"

fun isArray :: "jsval \<Rightarrow> bool" where
  "isArray (VArray xs) = True"
| "isArray _ = False"

definition array_step :: "globals \<Rightarrow> jsval \<Rightarrow> jsval" where
  "array_step g output =
     (if isArray output then output
      else if typeof output = ''undefined'' \<or> typeof (coerceFile g output) = ''undefined''
      then VArray []
      else VArray [output])"

fun apply_step :: "globals \<Rightarrow> step \<Rightarrow> jsval \<Rightarrow> error + jsval" where
  "apply_step g StepString output = coerceString output None"
| "apply_step g StepNumber output = coerceString output (Some (number_transform g))"
| "apply_step g StepBoolean output = coerceString output (Some boolean_transform)"
| "apply_step g StepDate output = coerceString output (Some (date_transform g))"
| "apply_step g StepBigint output = coerceString output (Some (bigint_transform g))"
| "apply_step g StepArray output = Inr (array_step g output)"

section \<open>Schema nodes\<close>

text \<open>
  Schema nodes are JavaScript objects: they are compared by identity (the cache
  is a \<^verbatim>\<open>Map\<close> keyed by node, line 329 compares with \<^verbatim>\<open>!==\<close>) and may refer
  to each other, also cyclically. A node is therefore a reference into an
  explicit store, and every object literal of the source allocates a new
  reference.

  Of a node only the properties the transformer reads or writes are kept: the
  \<^verbatim>\<open>type\<close> discriminator (\<open>None\<close> when the object has no such property),
  \<^verbatim>\<open>wrapped\<close>, \<^verbatim>\<open>entries\<close> (in \<^verbatim>\<open>Object.entries\<close> order), \<^verbatim>\<open>options\<close>, and
  \<^verbatim>\<open>_parse\<close>, kept as the list of preprocessing steps that run, first to last,
  in front of the node's native parser.
\<close>

type_synonym ref = nat

record schema =
  type :: "string option"
  wrapped :: "ref option"
  entries :: "(string \<times> ref) list option"
  options :: "ref list option"
  parse :: "step list"

type_synonym store = "schema list"

type_synonym cache = "ref \<rightharpoonup> ref"

definition alloc :: "store \<Rightarrow> schema \<Rightarrow> store \<times> ref" where
  "alloc h node = (h @ [node], length h)"

text \<open>
  Spreading \<^verbatim>\<open>{...x}\<close> copies the own properties of \<open>x\<close>; spreading a value
  that is not an object (here: a reference outside the store) copies nothing.
\<close>

definition no_properties :: schema where
  "no_properties = \<lparr>type = None, wrapped = None, entries = None, options = None, parse = []\<rparr>"

definition spread :: "store \<Rightarrow> ref \<Rightarrow> schema" where
  "spread h r = (if r < length h then h ! r else no_properties)"

text \<open>
  Modelled from the spec: \<^verbatim>\<open>coerce\<close> is imported from the validation library
  and is not part of the source. Section 6 of the spec: given a node and a pure
  function, it returns a new node that runs the function before the node's own
  acceptance logic. The new node is a copy of the given one whose parser is
  preceded by the step.
\<close>

definition coerce :: "store \<Rightarrow> ref \<Rightarrow> step \<Rightarrow> store \<times> ref" where
  "coerce h schema action =
     alloc h ((spread h schema)\<lparr>parse := action # parse (spread h schema)\<rparr>)"

text \<open>
  \<^verbatim>\<open>options?.wrap ? {...options.wrap, wrapped: schema} : schema\<close>, the first
  argument of every \<^verbatim>\<open>coerce\<close> call and the last statement of the object branch.
\<close>

definition wrap_schema :: "store \<Rightarrow> ref option \<Rightarrow> ref \<Rightarrow> store \<times> ref" where
  "wrap_schema h wrap schema =
     (case wrap of
        Some w \<Rightarrow> alloc h ((spread h w)\<lparr>wrapped := Some schema\<rparr>)
      | None \<Rightarrow> (h, schema))"

text \<open>\<^verbatim>\<open>coerce(options?.wrap ? {...} : schema, action)\<close>.\<close>

definition coerce_wrapped :: "store \<Rightarrow> ref option \<Rightarrow> ref \<Rightarrow> step \<Rightarrow> store \<times> ref" where
  "coerce_wrapped h wrap schema action =
     (case wrap_schema h wrap schema of (h1, s1) \<Rightarrow> coerce h1 s1 action)"

text \<open>Line 113: \<^verbatim>\<open>options?.cache ?? new Map()\<close>.\<close>

definition resolve_cache :: "cache option \<Rightarrow> cache" where
  "resolve_cache copt = (case copt of Some c \<Rightarrow> c | None \<Rightarrow> Map.empty)"

text \<open>Lines 329-331: \<^verbatim>\<open>if (type !== schema) cache.set(type, schema)\<close>.\<close>

definition cache_set :: "cache \<Rightarrow> ref \<Rightarrow> ref \<Rightarrow> cache" where
  "cache_set c t schema = (if t \<noteq> schema then c(t \<mapsto> schema) else c)"

definition string_like :: "string \<Rightarrow> bool" where
  "string_like k \<longleftrightarrow> k = ''string'' \<or> k = ''literal'' \<or> k = ''enum'' \<or> k = ''undefined''"

definition wrapper_kind :: "string \<Rightarrow> bool" where
  "wrapper_kind k \<longleftrightarrow>
     k = ''optional'' \<or> k = ''nullish'' \<or> k = ''nullable'' \<or>
     k = ''non_optional'' \<or> k = ''non_nullish'' \<or> k = ''non_nullable''"

definition union_kind :: "string \<Rightarrow> bool" where
  "union_kind k \<longleftrightarrow> k = ''union''"

definition object_kind :: "string \<Rightarrow> bool" where
  "object_kind k \<longleftrightarrow> k = ''object''"

text \<open>
  The first six branches of the dispatch (lines 132-223) differ only in the
  closure they attach; \<open>leaf_step\<close> keeps their order and their tests.
\<close>

definition leaf_step :: "string \<Rightarrow> step option" where
  "leaf_step k =
     (if string_like k then Some StepString
      else if k = ''number'' then Some StepNumber
      else if k = ''boolean'' then Some StepBoolean
      else if k = ''date'' then Some StepDate
      else if k = ''bigint'' then Some StepBigint
      else if k = ''array'' then Some StepArray
      else None)"

section \<open>The schema transformer\<close>

text \<open>
  \<^verbatim>\<open>enableTypeCoercion(type, options?)\<close>, lines 109-334. The JavaScript function
  recurses without a bound, so the model takes fuel: \<open>None\<close> means the fuel ran
  out, and a call that is \<open>None\<close> for every amount of fuel does not return.
  \<open>Some (Inl e)\<close> is a thrown exception, \<open>Some (Inr (h, c, r))\<close> a return of the
  node \<open>r\<close> with the store \<open>h\<close> and the final contents \<open>c\<close> of the cache the call
  worked on (the one of \<^verbatim>\<open>options.cache\<close>, which the caller shares, or a fresh
  one).

  The six wrapper branches (lines 224-295) are the same text up to the kind and
  are one branch here.
  \<open>coerce_entries\<close> is the \<^verbatim>\<open>map\<close> over \<^verbatim>\<open>Object.entries(type.entries)\<close> of line
  314, which hands the cache on; \<open>coerce_options\<close> is the \<^verbatim>\<open>map\<close> over
  \<^verbatim>\<open>type.options\<close> of line 299, which hands nothing on.
\<close>

fun enableTypeCoercion ::
    "nat \<Rightarrow> store \<Rightarrow> ref \<Rightarrow> ref option \<Rightarrow> cache option \<Rightarrow> (error + store \<times> cache \<times> ref) option"
  and coerce_entries ::
    "nat \<Rightarrow> store \<Rightarrow> cache \<Rightarrow> (string \<times> ref) list \<Rightarrow> (error + store \<times> cache \<times> (string \<times> ref) list) option"
  and coerce_options ::
    "nat \<Rightarrow> store \<Rightarrow> ref list \<Rightarrow> (error + store \<times> ref list) option"
where
  "enableTypeCoercion 0 h t wrap copt = None"
| "enableTypeCoercion (Suc n) h t wrap copt =
     (let cache = resolve_cache copt in
      case cache t of
        Some result \<Rightarrow> Some (Inr (h, cache, result))
      | None \<Rightarrow>
          if \<not> t < length h then Some (Inl TypeError)
          else case type (h ! t) of
            None \<Rightarrow> Some (Inr (h, cache, t))
          | Some k \<Rightarrow>
              case leaf_step k of
                Some action \<Rightarrow>
                  (case coerce_wrapped h wrap t action of
                     (h2, schema) \<Rightarrow> Some (Inr (h2, cache_set cache t schema, schema)))
              | None \<Rightarrow>
              if wrapper_kind k then
                (case wrapped (h ! t) of
                   None \<Rightarrow> Some (Inl TypeError)
                 | Some child \<Rightarrow>
                     (case enableTypeCoercion n h child (Some t) None of
                        None \<Rightarrow> None
                      | Some (Inl e) \<Rightarrow> Some (Inl e)
                      | Some (Inr (h1, c1, inner)) \<Rightarrow>
                          (case coerce_wrapped h1 wrap inner StepString of
                             (h2, schema) \<Rightarrow> Some (Inr (h2, cache_set cache t schema, schema)))))
              else if union_kind k then
                (case options (h ! t) of
                   None \<Rightarrow> Some (Inl TypeError)
                 | Some opts \<Rightarrow>
                     (case coerce_options n h opts of
                        None \<Rightarrow> None
                      | Some (Inl e) \<Rightarrow> Some (Inl e)
                      | Some (Inr (h1, opts')) \<Rightarrow>
                          (case alloc h1 ((h ! t)\<lparr>options := Some opts'\<rparr>) of
                             (h2, union_copy) \<Rightarrow>
                               (case coerce_wrapped h2 wrap union_copy StepString of
                                  (h3, schema) \<Rightarrow>
                                    Some (Inr (h3, cache_set cache t schema, schema))))))
              else if object_kind k then
                (case entries (h ! t) of
                   None \<Rightarrow> Some (Inl TypeError)
                 | Some es \<Rightarrow>
                     (case coerce_entries n h cache es of
                        None \<Rightarrow> None
                      | Some (Inl e) \<Rightarrow> Some (Inl e)
                      | Some (Inr (h1, cache1, es')) \<Rightarrow>
                          (case alloc h1 ((h ! t)\<lparr>entries := Some es'\<rparr>) of
                             (h2, shape) \<Rightarrow>
                               (case wrap_schema h2 wrap shape of
                                  (h3, schema) \<Rightarrow>
                                    Some (Inr (h3, cache_set cache1 t schema, schema))))))
              else Some (Inr (h, cache, t)))"
| "coerce_entries n h cache [] = Some (Inr (h, cache, []))"
| "coerce_entries n h cache ((key, def) # es) =
     (case enableTypeCoercion n h def None (Some cache) of
        None \<Rightarrow> None
      | Some (Inl e) \<Rightarrow> Some (Inl e)
      | Some (Inr (h1, cache1, def')) \<Rightarrow>
          (case coerce_entries n h1 cache1 es of
             None \<Rightarrow> None
           | Some (Inl e) \<Rightarrow> Some (Inl e)
           | Some (Inr (h2, cache2, es')) \<Rightarrow> Some (Inr (h2, cache2, (key, def') # es'))))"
| "coerce_options n h [] = Some (Inr (h, []))"
| "coerce_options n h (option # opts) =
     (case enableTypeCoercion n h option None None of
        None \<Rightarrow> None
      | Some (Inl e) \<Rightarrow> Some (Inl e)
      | Some (Inr (h1, c1, option')) \<Rightarrow>
          (case coerce_options n h1 opts of
             None \<Rightarrow> None
           | Some (Inl e) \<Rightarrow> Some (Inl e)
           | Some (Inr (h2, opts')) \<Rightarrow> Some (Inr (h2, option' # opts'))))"

section \<open>Notions used by the properties\<close>

text \<open>
  A kind the dispatch has no branch for (for example \<^verbatim>\<open>picklist\<close>, or the
  library's lazy/recursive schema): every test of lines 132-310 fails.
\<close>

definition unrecognized :: "string \<Rightarrow> bool" where
  "unrecognized k \<longleftrightarrow>
     leaf_step k = None \<and> \<not> wrapper_kind k \<and> \<not> union_kind k \<and> \<not> object_kind k"

text \<open>The two pass-through paths: no \<^verbatim>\<open>type\<close> property (line 126), or no branch.\<close>

definition passes_through :: "schema \<Rightarrow> bool" where
  "passes_through node = (case type node of None \<Rightarrow> True | Some k \<Rightarrow> unrecognized k)"

text \<open>
  \<open>wrapper_stack h t ws b\<close>: from the node \<open>t\<close>, following \<^verbatim>\<open>wrapped\<close> through
  the wrapper-kind nodes \<open>ws\<close> (outermost first), one arrives at \<open>b\<close>.
\<close>

fun wrapper_stack :: "store \<Rightarrow> ref \<Rightarrow> ref list \<Rightarrow> ref \<Rightarrow> bool" where
  "wrapper_stack h t [] b \<longleftrightarrow> t = b"
| "wrapper_stack h t (w # ws) b \<longleftrightarrow>
     t = w \<and> w < length h \<and>
     (case type (h ! w) of None \<Rightarrow> False | Some k \<Rightarrow> wrapper_kind k) \<and>
     (case wrapped (h ! w) of None \<Rightarrow> False | Some child \<Rightarrow> wrapper_stack h child ws b)"

text \<open>A host environment and a few values and stores for the examples.\<close>

definition example_globals :: globals where
  "example_globals =
     \<lparr>File_defined = True,
      Number = (\<lambda>text. if text = ''42'' then Finite 42 else NaN),
      BigInt = (\<lambda>text. if text = ''42'' then Inr 42 else Inl SyntaxError),
      Date_parse = (\<lambda>text. if text = ''2024-01-01'' then Some 1704067200000 else None)\<rparr>"

definition empty_file_like :: jsval where
  "empty_file_like = VObject [(''name'', VString ''''), (''size'', VNumber (Finite 0))]"

definition node :: "string \<Rightarrow> schema" where
  "node k = \<lparr>type = Some k, wrapped = None, entries = None, options = None, parse = []\<rparr>"

text \<open>An optional schema whose \<^verbatim>\<open>wrapped\<close> is the schema itself.\<close>

definition self_wrapped :: store where
  "self_wrapped = [(node ''optional'')\<lparr>wrapped := Some 0\<rparr>]"

text \<open>An object schema with one entry, which is the object itself.\<close>

definition self_entry :: store where
  "self_entry = [(node ''object'')\<lparr>entries := Some [(''self'', 0)]\<rparr>]"

text \<open>\<^verbatim>\<open>optional(nullable(picklist))\<close> and \<^verbatim>\<open>optional(nullable(string))\<close>.\<close>

definition stacked_picklist :: store where
  "stacked_picklist =
     [(node ''optional'')\<lparr>wrapped := Some 1\<rparr>, (node ''nullable'')\<lparr>wrapped := Some 2\<rparr>,
      node ''picklist'']"

definition stacked_string :: store where
  "stacked_string =
     [(node ''optional'')\<lparr>wrapped := Some 1\<rparr>, (node ''nullable'')\<lparr>wrapped := Some 2\<rparr>,
      node ''string'']"

text \<open>\<^verbatim>\<open>nullish(optional(lazy))\<close>, with the library's lazy schema as the child.\<close>

definition stacked_lazy :: store where
  "stacked_lazy =
     [(node ''nullish'')\<lparr>wrapped := Some 1\<rparr>, (node ''optional'')\<lparr>wrapped := Some 2\<rparr>,
      node ''lazy'']"

text \<open>The kinds and the parsers of a list of nodes, in order.\<close>

definition kinds :: "store \<Rightarrow> ref list \<Rightarrow> string option list" where
  "kinds h ws = map (\<lambda>w. type (h ! w)) ws"

definition parsers :: "store \<Rightarrow> ref list \<Rightarrow> step list list" where
  "parsers h ws = map (\<lambda>w. parse (h ! w)) ws"

text \<open>What a call returns to its caller: the store and the node, without the cache.\<close>

definition returned :: "(error + store \<times> cache \<times> ref) option \<Rightarrow> (store \<times> ref) option" where
  "returned x = (case x of Some (Inr (h, c, r)) \<Rightarrow> Some (h, r) | _ \<Rightarrow> None)"


section \<open>The value coercers\<close>

lemma typeof_undefined_iff: "typeof v = ''undefined'' \<longleftrightarrow> v = VUndefined"
  by (cases v) simp_all

text \<open>
  C4. \<open>coerceString\<close> returns a value that is not a string unchanged, turns the
  empty string into \<^verbatim>\<open>undefined\<close> whatever the transform, returns a non-empty
  string unchanged when no transform is supplied, and otherwise returns what
  the transform returns on the string.
\<close>

theorem coerceString_contract:
  "(typeof v \<noteq> ''string'' \<longrightarrow> coerceString v transform = Inr v) \<and>
   coerceString (VString '''') transform = Inr VUndefined \<and>
   (text \<noteq> '''' \<longrightarrow> coerceString (VString text) None = Inr (VString text)) \<and>
   (text \<noteq> '''' \<longrightarrow> coerceString (VString text) (Some f) = f text)"
  by (simp add: coerceString_def)

theorem coerceString_contract_witness:
  "typeof (VNumber (Finite 7)) \<noteq> ''string'' \<and> ''abc'' \<noteq> '''' \<and>
   coerceString (VNumber (Finite 7)) (Some boolean_transform) = Inr (VNumber (Finite 7)) \<and>
   coerceString (VString '''') (Some boolean_transform) = Inr VUndefined \<and>
   coerceString (VString ''abc'') None = Inr (VString ''abc'') \<and>
   coerceString (VString ''abc'') (Some boolean_transform) = boolean_transform ''abc''"
  using coerceString_contract [of "VNumber (Finite 7)" "Some boolean_transform" "''abc''" boolean_transform]
  by simp

text \<open>
  C5, as stated, fails: a plain object with \<^verbatim>\<open>name: ""\<close> and \<^verbatim>\<open>size: 0\<close> is not
  an instance of \<^verbatim>\<open>File\<close>, and \<open>coerceFile\<close> returns it, not \<^verbatim>\<open>undefined\<close>.
\<close>

theorem coerceFile_plain_object_counterexample:
  "coerceFile example_globals empty_file_like \<noteq> VUndefined"
  by (simp add: coerceFile_def empty_file_like_def)

text \<open>
  C5, amended. Where a global \<^verbatim>\<open>File\<close> exists, \<open>coerceFile\<close> returns
  \<^verbatim>\<open>undefined\<close> for the instance of \<^verbatim>\<open>File\<close> with an empty name and size zero,
  and returns every other value unchanged: values that are no files, files with
  a name or a size, and plain objects that only carry the two properties.
\<close>

theorem coerceFile_contract:
  "File_defined g \<Longrightarrow>
   coerceFile g (VFile '''' 0) = VUndefined \<and>
   (v \<noteq> VFile '''' 0 \<longrightarrow> coerceFile g v = v)"
  by (cases v) (auto simp: coerceFile_def)

theorem coerceFile_contract_witness:
  "File_defined example_globals \<and> empty_file_like \<noteq> VFile '''' 0 \<and>
   coerceFile example_globals (VFile '''' 0) = VUndefined \<and>
   coerceFile example_globals empty_file_like = empty_file_like"
  using coerceFile_contract [of example_globals empty_file_like]
  by (simp add: example_globals_def empty_file_like_def)

text \<open>
  C6. \<open>coerceFile\<close> changes a value only when a global \<^verbatim>\<open>File\<close> exists and the
  value is an instance of it with an empty name and size zero, and then the
  result is \<^verbatim>\<open>undefined\<close>; a value that is no instance of \<^verbatim>\<open>File\<close>, such as an
  object carrying \<^verbatim>\<open>name: ""\<close> and \<^verbatim>\<open>size: 0\<close>, is returned unchanged; and
  without a global \<^verbatim>\<open>File\<close> the function is the identity.
\<close>

theorem coerceFile_only_File_instances:
  "(coerceFile g v \<noteq> v \<longrightarrow>
      File_defined g \<and> instanceof_File v \<and> v = VFile '''' 0 \<and> coerceFile g v = VUndefined) \<and>
   (\<not> instanceof_File v \<longrightarrow> coerceFile g v = v) \<and>
   coerceFile g (VObject ((''name'', VString '''') # (''size'', VNumber (Finite 0)) # props)) =
     VObject ((''name'', VString '''') # (''size'', VNumber (Finite 0)) # props) \<and>
   (\<not> File_defined g \<longrightarrow> coerceFile g v = v)"
  by (cases v) (auto simp: coerceFile_def)

theorem coerceFile_only_File_instances_witness:
  "coerceFile example_globals (VFile '''' 0) \<noteq> VFile '''' 0 \<and>
   File_defined example_globals \<and> instanceof_File (VFile '''' 0) \<and>
   coerceFile example_globals (VFile '''' 0) = VUndefined \<and>
   \<not> File_defined (example_globals\<lparr>File_defined := False\<rparr>) \<and>
   coerceFile (example_globals\<lparr>File_defined := False\<rparr>) (VFile '''' 0) = VFile '''' 0 \<and>
   \<not> instanceof_File empty_file_like \<and>
   coerceFile example_globals empty_file_like = empty_file_like"
  using coerceFile_only_File_instances [of example_globals "VFile '''' 0" "[]"]
        coerceFile_only_File_instances [of "example_globals\<lparr>File_defined := False\<rparr>" "VFile '''' 0" "[]"]
        coerceFile_only_File_instances [of example_globals empty_file_like "[]"]
  by (simp add: example_globals_def empty_file_like_def coerceFile_def)

section \<open>The branches of the transformer\<close>

lemma coerce_wrapped_None:
  "coerce_wrapped h None s a = (h @ [(spread h s)\<lparr>parse := a # parse (spread h s)\<rparr>], length h)"
  by (simp add: coerce_wrapped_def wrap_schema_def coerce_def alloc_def)

lemma coerce_wrapped_Some:
  "coerce_wrapped h (Some w) s a =
     (h @ [(spread h w)\<lparr>wrapped := Some s\<rparr>,
           (spread h w)\<lparr>wrapped := Some s, parse := a # parse (spread h w)\<rparr>],
      Suc (length h))"
  by (simp add: coerce_wrapped_def wrap_schema_def coerce_def alloc_def spread_def nth_append)


lemma enableTypeCoercion_leaf:
  "\<lbrakk>resolve_cache copt t = None; t < length h; type (h ! t) = Some k; leaf_step k = Some a\<rbrakk> \<Longrightarrow>
   enableTypeCoercion (Suc n) h t wrap copt =
     (case coerce_wrapped h wrap t a of
        (h2, schema) \<Rightarrow> Some (Inr (h2, cache_set (resolve_cache copt) t schema, schema)))"
  by simp

lemma enableTypeCoercion_passes_through:
  "\<lbrakk>resolve_cache copt t = None; t < length h; passes_through (h ! t)\<rbrakk> \<Longrightarrow>
   enableTypeCoercion (Suc n) h t wrap copt = Some (Inr (h, resolve_cache copt, t))"
proof (cases "type (h ! t)")
  case None
  assume "resolve_cache copt t = None" "t < length h"
  with None show ?thesis by simp
next
  case (Some k)
  assume a: "resolve_cache copt t = None" "t < length h" "passes_through (h ! t)"
  from a(3) Some have "leaf_step k = None" "\<not> wrapper_kind k" "\<not> union_kind k" "\<not> object_kind k"
    by (simp_all add: passes_through_def unrecognized_def)
  with a(1,2) Some show ?thesis by simp
qed

lemma enableTypeCoercion_wrapper:
  "\<lbrakk>resolve_cache copt t = None; t < length h; type (h ! t) = Some k; wrapper_kind k;
    leaf_step k = None; wrapped (h ! t) = Some child;
    enableTypeCoercion n h child (Some t) None = Some (Inr (h1, c1, inner))\<rbrakk> \<Longrightarrow>
   enableTypeCoercion (Suc n) h t wrap copt =
     (case coerce_wrapped h1 wrap inner StepString of
        (h2, schema) \<Rightarrow> Some (Inr (h2, cache_set (resolve_cache copt) t schema, schema)))"
  by simp

lemma wrapper_kind_not_leaf: "wrapper_kind k \<Longrightarrow> leaf_step k = None"
  unfolding wrapper_kind_def
  by (elim disjE; simp add: leaf_step_def string_like_def)

section \<open>The steps attached to leaf schemas\<close>

lemma leaf_step_array: "leaf_step ''array'' = Some StepArray"
  by (simp add: leaf_step_def string_like_def)

lemma leaf_step_date: "leaf_step ''date'' = Some StepDate"
  by (simp add: leaf_step_def string_like_def)

lemma leaf_step_boolean: "leaf_step ''boolean'' = Some StepBoolean"
  by (simp add: leaf_step_def string_like_def)

lemma enableTypeCoercion_leaf_attaches:
  assumes "resolve_cache copt t = None" "t < length h" "type (h ! t) = Some k"
    and "leaf_step k = Some a"
  shows "\<exists>h' c' r. enableTypeCoercion (Suc n) h t wrap copt = Some (Inr (h', c', r)) \<and>
           r < length h' \<and>
           parse (h' ! r) = a # parse (case wrap of None \<Rightarrow> h ! t | Some w \<Rightarrow> spread h w)"
proof (cases wrap)
  case None
  with assms show ?thesis
    by (simp only: enableTypeCoercion_leaf [OF assms] coerce_wrapped_None)
       (simp add: spread_def)
next
  case (Some w)
  with assms show ?thesis
    by (simp only: enableTypeCoercion_leaf [OF assms] coerce_wrapped_Some)
       (simp add: nth_append)
qed

lemma coerceFile_undefined_not_array: "coerceFile g v = VUndefined \<Longrightarrow> \<not> isArray v"
  by (cases v) (simp_all add: coerceFile_def)

text \<open>
  C7. The transformer attaches to an array-kind schema (to the copy of the
  pending wrapper, when there is one) the step \<open>StepArray\<close>, and that step
  returns an array unchanged, maps \<^verbatim>\<open>undefined\<close> and every value that
  \<open>coerceFile\<close> turns into \<^verbatim>\<open>undefined\<close> to the empty array, and every other
  value to the array of that one value.
\<close>

theorem array_preprocessing_step:
  assumes "resolve_cache copt t = None" "t < length h" "type (h ! t) = Some ''array''"
  shows "(\<exists>h' c' r. enableTypeCoercion (Suc n) h t wrap copt = Some (Inr (h', c', r)) \<and>
            r < length h' \<and>
            parse (h' ! r) = StepArray # parse (case wrap of None \<Rightarrow> h ! t | Some w \<Rightarrow> spread h w)) \<and>
         (isArray v \<longrightarrow> apply_step g StepArray v = Inr v) \<and>
         apply_step g StepArray VUndefined = Inr (VArray []) \<and>
         (coerceFile g v = VUndefined \<longrightarrow> apply_step g StepArray v = Inr (VArray [])) \<and>
         (\<not> isArray v \<and> v \<noteq> VUndefined \<and> coerceFile g v \<noteq> VUndefined \<longrightarrow>
            apply_step g StepArray v = Inr (VArray [v]))"
proof -
  have "\<exists>h' c' r. enableTypeCoercion (Suc n) h t wrap copt = Some (Inr (h', c', r)) \<and>
            r < length h' \<and>
            parse (h' ! r) = StepArray # parse (case wrap of None \<Rightarrow> h ! t | Some w \<Rightarrow> spread h w)"
    using assms leaf_step_array by (rule enableTypeCoercion_leaf_attaches)
  moreover have "isArray v \<longrightarrow> apply_step g StepArray v = Inr v"
    by (simp add: array_step_def)
  moreover have "apply_step g StepArray VUndefined = Inr (VArray [])"
    by (simp add: array_step_def)
  moreover have "coerceFile g v = VUndefined \<longrightarrow> apply_step g StepArray v = Inr (VArray [])"
    using coerceFile_undefined_not_array [of g v] by (simp add: array_step_def)
  moreover have "\<not> isArray v \<and> v \<noteq> VUndefined \<and> coerceFile g v \<noteq> VUndefined \<longrightarrow>
            apply_step g StepArray v = Inr (VArray [v])"
    by (simp add: array_step_def typeof_undefined_iff)
  ultimately show ?thesis by blast
qed

theorem array_preprocessing_step_witness:
  "resolve_cache None 0 = None \<and> (0::nat) < length [node ''array''] \<and>
   type ([node ''array''] ! 0) = Some ''array'' \<and>
   (\<exists>h' c' r. enableTypeCoercion (Suc 0) [node ''array''] 0 None None = Some (Inr (h', c', r)) \<and>
      r < length h' \<and> parse (h' ! r) = [StepArray]) \<and>
   apply_step example_globals StepArray (VArray [VString ''a'', VString ''b'']) =
     Inr (VArray [VString ''a'', VString ''b'']) \<and>
   apply_step example_globals StepArray VUndefined = Inr (VArray []) \<and>
   apply_step example_globals StepArray (VFile '''' 0) = Inr (VArray []) \<and>
   apply_step example_globals StepArray (VString ''x'') = Inr (VArray [VString ''x''])"
  using array_preprocessing_step [of None 0 "[node ''array'']" 0 None "VArray [VString ''a'', VString ''b'']" example_globals]
        array_preprocessing_step [of None 0 "[node ''array'']" 0 None "VFile '''' 0" example_globals]
        array_preprocessing_step [of None 0 "[node ''array'']" 0 None "VString ''x''" example_globals]
  by (simp add: resolve_cache_def node_def coerceFile_def example_globals_def)

text \<open>
  C8. The transformer attaches to a date-kind schema the step \<open>StepDate\<close>,
  and that step maps the empty string to \<^verbatim>\<open>undefined\<close>, a non-empty string
  that parses to the date parsed, a non-empty string that does not parse to
  the string itself (never to an invalid date), and a value that is not a
  string to itself.
\<close>

theorem date_preprocessing_step:
  assumes "resolve_cache copt t = None" "t < length h" "type (h ! t) = Some ''date''"
  shows "(\<exists>h' c' r. enableTypeCoercion (Suc n) h t wrap copt = Some (Inr (h', c', r)) \<and>
            r < length h' \<and>
            parse (h' ! r) = StepDate # parse (case wrap of None \<Rightarrow> h ! t | Some w \<Rightarrow> spread h w)) \<and>
         apply_step g StepDate (VString '''') = Inr VUndefined \<and>
         (text \<noteq> '''' \<and> Date_parse g text = Some time \<longrightarrow>
            apply_step g StepDate (VString text) = Inr (VDate (Some time))) \<and>
         (text \<noteq> '''' \<and> Date_parse g text = None \<longrightarrow>
            apply_step g StepDate (VString text) = Inr (VString text)) \<and>
         apply_step g StepDate (VString text) \<noteq> Inr (VDate None) \<and>
         (typeof v \<noteq> ''string'' \<longrightarrow> apply_step g StepDate v = Inr v)"
proof -
  have "\<exists>h' c' r. enableTypeCoercion (Suc n) h t wrap copt = Some (Inr (h', c', r)) \<and>
            r < length h' \<and>
            parse (h' ! r) = StepDate # parse (case wrap of None \<Rightarrow> h ! t | Some w \<Rightarrow> spread h w)"
    using assms leaf_step_date by (rule enableTypeCoercion_leaf_attaches)
  moreover have "apply_step g StepDate (VString '''') = Inr VUndefined"
    by (simp add: coerceString_def)
  moreover have "text \<noteq> '''' \<and> Date_parse g text = Some time \<longrightarrow>
            apply_step g StepDate (VString text) = Inr (VDate (Some time))"
    by (simp add: coerceString_def date_transform_def)
  moreover have "text \<noteq> '''' \<and> Date_parse g text = None \<longrightarrow>
            apply_step g StepDate (VString text) = Inr (VString text)"
    by (simp add: coerceString_def date_transform_def)
  moreover have "apply_step g StepDate (VString text) \<noteq> Inr (VDate None)"
    by (simp add: coerceString_def date_transform_def Let_def)
  moreover have "typeof v \<noteq> ''string'' \<longrightarrow> apply_step g StepDate v = Inr v"
    by (simp add: coerceString_def)
  ultimately show ?thesis by blast
qed

theorem date_preprocessing_step_witness:
  "resolve_cache None 0 = None \<and> (0::nat) < length [node ''date''] \<and>
   type ([node ''date''] ! 0) = Some ''date'' \<and>
   ''2024-01-01'' \<noteq> '''' \<and> Date_parse example_globals ''2024-01-01'' = Some 1704067200000 \<and>
   ''not-a-date'' \<noteq> '''' \<and> Date_parse example_globals ''not-a-date'' = None \<and>
   typeof (VDate None) \<noteq> ''string'' \<and>
   (\<exists>h' c' r. enableTypeCoercion (Suc 0) [node ''date''] 0 None None = Some (Inr (h', c', r)) \<and>
      r < length h' \<and> parse (h' ! r) = [StepDate]) \<and>
   apply_step example_globals StepDate (VString ''2024-01-01'') = Inr (VDate (Some 1704067200000)) \<and>
   apply_step example_globals StepDate (VString ''not-a-date'') = Inr (VString ''not-a-date'') \<and>
   apply_step example_globals StepDate (VDate None) = Inr (VDate None)"
  using date_preprocessing_step [of None 0 "[node ''date'']" 0 None example_globals "''2024-01-01''" 1704067200000 "VDate None"]
        date_preprocessing_step [of None 0 "[node ''date'']" 0 None example_globals "''not-a-date''" 0 "VDate None"]
  by (simp add: resolve_cache_def node_def example_globals_def)

text \<open>
  C9. The transformer attaches to a boolean-kind schema the step
  \<open>StepBoolean\<close>, and that step maps the string \<^verbatim>\<open>"on"\<close>, and no other
  string, to \<^verbatim>\<open>true\<close>, the empty string to \<^verbatim>\<open>undefined\<close>, every other
  string to itself, and a value that is not a string to itself.
\<close>

theorem boolean_preprocessing_step:
  assumes "resolve_cache copt t = None" "t < length h" "type (h ! t) = Some ''boolean''"
  shows "(\<exists>h' c' r. enableTypeCoercion (Suc n) h t wrap copt = Some (Inr (h', c', r)) \<and>
            r < length h' \<and>
            parse (h' ! r) = StepBoolean # parse (case wrap of None \<Rightarrow> h ! t | Some w \<Rightarrow> spread h w)) \<and>
         apply_step g StepBoolean (VString ''on'') = Inr (VBool True) \<and>
         apply_step g StepBoolean (VString '''') = Inr VUndefined \<and>
         (text \<noteq> '''' \<and> text \<noteq> ''on'' \<longrightarrow>
            apply_step g StepBoolean (VString text) = Inr (VString text)) \<and>
         (apply_step g StepBoolean (VString text) = Inr (VBool True) \<longrightarrow> text = ''on'') \<and>
         (typeof v \<noteq> ''string'' \<longrightarrow> apply_step g StepBoolean v = Inr v)"
proof -
  have "\<exists>h' c' r. enableTypeCoercion (Suc n) h t wrap copt = Some (Inr (h', c', r)) \<and>
            r < length h' \<and>
            parse (h' ! r) = StepBoolean # parse (case wrap of None \<Rightarrow> h ! t | Some w \<Rightarrow> spread h w)"
    using assms leaf_step_boolean by (rule enableTypeCoercion_leaf_attaches)
  moreover have "apply_step g StepBoolean (VString ''on'') = Inr (VBool True)"
    by (simp add: coerceString_def boolean_transform_def)
  moreover have "apply_step g StepBoolean (VString '''') = Inr VUndefined"
    by (simp add: coerceString_def)
  moreover have "text \<noteq> '''' \<and> text \<noteq> ''on'' \<longrightarrow>
            apply_step g StepBoolean (VString text) = Inr (VString text)"
    by (simp add: coerceString_def boolean_transform_def)
  moreover have "apply_step g StepBoolean (VString text) = Inr (VBool True) \<longrightarrow> text = ''on''"
    by (simp add: coerceString_def boolean_transform_def split: if_splits)
  moreover have "typeof v \<noteq> ''string'' \<longrightarrow> apply_step g StepBoolean v = Inr v"
    by (simp add: coerceString_def)
  ultimately show ?thesis by blast
qed

theorem boolean_preprocessing_step_witness:
  "resolve_cache None 0 = None \<and> (0::nat) < length [node ''boolean''] \<and>
   type ([node ''boolean''] ! 0) = Some ''boolean'' \<and>
   ''false'' \<noteq> '''' \<and> ''false'' \<noteq> ''on'' \<and> typeof (VBool False) \<noteq> ''string'' \<and>
   (\<exists>h' c' r. enableTypeCoercion (Suc 0) [node ''boolean''] 0 None None = Some (Inr (h', c', r)) \<and>
      r < length h' \<and> parse (h' ! r) = [StepBoolean]) \<and>
   apply_step example_globals StepBoolean (VString ''on'') = Inr (VBool True) \<and>
   apply_step example_globals StepBoolean (VString ''false'') = Inr (VString ''false'') \<and>
   apply_step example_globals StepBoolean (VBool False) = Inr (VBool False)"
  using boolean_preprocessing_step [of None 0 "[node ''boolean'']" 0 None example_globals "''false''" "VBool False"]
  by (simp add: resolve_cache_def node_def)

section \<open>The store only grows\<close>

lemma enableTypeCoercion_wrapper_eq:
  "\<lbrakk>resolve_cache copt t = None; t < length h; type (h ! t) = Some k; wrapper_kind k\<rbrakk> \<Longrightarrow>
   enableTypeCoercion (Suc n) h t wrap copt =
     (case wrapped (h ! t) of
        None \<Rightarrow> Some (Inl TypeError)
      | Some child \<Rightarrow>
          (case enableTypeCoercion n h child (Some t) None of
             None \<Rightarrow> None
           | Some (Inl e) \<Rightarrow> Some (Inl e)
           | Some (Inr (h1, c1, inner)) \<Rightarrow>
               (case coerce_wrapped h1 wrap inner StepString of
                  (h2, schema) \<Rightarrow> Some (Inr (h2, cache_set (resolve_cache copt) t schema, schema)))))"
  using wrapper_kind_not_leaf [of k] by simp


lemma enableTypeCoercion_object_eq:
  "\<lbrakk>resolve_cache copt t = None; t < length h; type (h ! t) = Some k; leaf_step k = None;
    \<not> wrapper_kind k; \<not> union_kind k; object_kind k\<rbrakk> \<Longrightarrow>
   enableTypeCoercion (Suc n) h t wrap copt =
     (case entries (h ! t) of
        None \<Rightarrow> Some (Inl TypeError)
      | Some es \<Rightarrow>
          (case coerce_entries n h (resolve_cache copt) es of
             None \<Rightarrow> None
           | Some (Inl e) \<Rightarrow> Some (Inl e)
           | Some (Inr (h1, cache1, es')) \<Rightarrow>
               (case wrap_schema (h1 @ [(h ! t)\<lparr>entries := Some es'\<rparr>]) wrap (length h1) of
                  (h3, schema) \<Rightarrow> Some (Inr (h3, cache_set cache1 t schema, schema)))))"
  by (simp add: alloc_def split: option.splits sum.splits)






section \<open>Pass-through children and the store\<close>

lemmas eval_defs =
  node_def leaf_step_def string_like_def wrapper_kind_def union_kind_def object_kind_def
  resolve_cache_def coerce_wrapped_def wrap_schema_def coerce_def alloc_def spread_def
  cache_set_def unrecognized_def passes_through_def

text \<open>
  C3, as stated, fails when an outer wrapper is pending: in
  \<^verbatim>\<open>nullish(optional(lazy))\<close> the optional node, processed with the nullish
  one pending, does not return the coerced child alone. It returns a copy of
  the nullish wrapper with the step attached, whose \<^verbatim>\<open>wrapped\<close> is the lazy
  node itself, and the lazy node gets no step.
\<close>

theorem pending_wrap_counterexample:
  "returned (enableTypeCoercion (Suc (Suc 0)) stacked_lazy 1 (Some 0) None) =
     Some (stacked_lazy @
             [(node ''nullish'')\<lparr>wrapped := Some 2\<rparr>,
              (node ''nullish'')\<lparr>wrapped := Some 2, parse := [StepString]\<rparr>], 4) \<and>
   returned (enableTypeCoercion (Suc (Suc 0)) stacked_lazy 1 (Some 0) None) \<noteq>
     Some (stacked_lazy @ [(node ''lazy'')\<lparr>parse := [StepString]\<rparr>], 3)"
  by (simp add: eval_defs returned_def stacked_lazy_def eval_nat_numeral)

text \<open>
  C3, amended. A wrapper-kind node whose child passes through (no \<^verbatim>\<open>type\<close>,
  or a kind without a branch) is never rebuilt around the result, because the
  child's call returned before it looked at the pending wrap. Called without
  an outer wrapper, the call allocates one node, the copy of the child with
  \<open>StepString\<close> in front of its parser, and returns it: the coerced child
  alone. Called with an outer wrapper pending, it allocates the copy of that
  outer wrapper whose \<^verbatim>\<open>wrapped\<close> is the child itself and the copy of it with
  \<open>StepString\<close> in front of its parser, and returns the latter.
\<close>

theorem wrapper_over_pass_through_child:
  assumes "resolve_cache copt t = None" "t < length h" "type (h ! t) = Some k" "wrapper_kind k"
    and "wrapped (h ! t) = Some child" "child < length h" "passes_through (h ! child)"
  shows "enableTypeCoercion (Suc (Suc n)) h t wrap copt =
           (case wrap of
              None \<Rightarrow>
                Some (Inr (h @ [(h ! child)\<lparr>parse := StepString # parse (h ! child)\<rparr>],
                           (resolve_cache copt)(t \<mapsto> length h), length h))
            | Some w \<Rightarrow>
                Some (Inr (h @ [(spread h w)\<lparr>wrapped := Some child\<rparr>,
                                (spread h w)\<lparr>wrapped := Some child,
                                               parse := StepString # parse (spread h w)\<rparr>],
                           (resolve_cache copt)(t \<mapsto> Suc (length h)), Suc (length h))))"
proof -
  have inner: "enableTypeCoercion (Suc n) h child (Some t) None = Some (Inr (h, resolve_cache None, child))"
    using assms(6,7) by (intro enableTypeCoercion_passes_through) (simp_all add: resolve_cache_def)
  have eq: "enableTypeCoercion (Suc (Suc n)) h t wrap copt =
     (case coerce_wrapped h wrap child StepString of
        (h2, schema) \<Rightarrow> Some (Inr (h2, cache_set (resolve_cache copt) t schema, schema)))"
    using assms(1,2,3,4) wrapper_kind_not_leaf [OF assms(4)] assms(5) inner
    by (rule enableTypeCoercion_wrapper)
  show ?thesis
  proof (cases wrap)
    case None
    with eq assms(2,6) show ?thesis
      by (simp add: coerce_wrapped_None spread_def cache_set_def)
  next
    case (Some w)
    with eq assms(2) show ?thesis
      by (simp add: coerce_wrapped_Some cache_set_def)
  qed
qed

theorem wrapper_over_pass_through_child_witness:
  "resolve_cache None 0 = None \<and> (0::nat) < length [(node ''optional'')\<lparr>wrapped := Some 1\<rparr>, node ''picklist''] \<and>
   wrapper_kind ''optional'' \<and> passes_through (node ''picklist'') \<and>
   enableTypeCoercion (Suc (Suc 0)) [(node ''optional'')\<lparr>wrapped := Some 1\<rparr>, node ''picklist''] 0 None None =
     Some (Inr ([(node ''optional'')\<lparr>wrapped := Some 1\<rparr>, node ''picklist'',
                 (node ''picklist'')\<lparr>parse := [StepString]\<rparr>],
                [0 \<mapsto> 2], 2)) \<and>
   resolve_cache None 1 = None \<and> (1::nat) < length stacked_lazy \<and>
   type (stacked_lazy ! 1) = Some ''optional'' \<and> wrapped (stacked_lazy ! 1) = Some 2 \<and>
   (2::nat) < length stacked_lazy \<and> passes_through (stacked_lazy ! 2) \<and>
   enableTypeCoercion (Suc (Suc 0)) stacked_lazy 1 (Some 0) None =
     Some (Inr (stacked_lazy @
                  [(node ''nullish'')\<lparr>wrapped := Some 2\<rparr>,
                   (node ''nullish'')\<lparr>wrapped := Some 2, parse := [StepString]\<rparr>],
                [1 \<mapsto> 4], 4))"
  using wrapper_over_pass_through_child
          [of None 0 "[(node ''optional'')\<lparr>wrapped := Some 1\<rparr>, node ''picklist'']" "''optional''" 1 0 None]
        wrapper_over_pass_through_child
          [of None 1 stacked_lazy "''optional''" 2 0 "Some 0"]
  by (simp add: eval_defs stacked_lazy_def eval_nat_numeral)



section \<open>Schemas that contain themselves\<close>

lemma self_wrapped_diverges: "enableTypeCoercion n self_wrapped 0 wrap None = None"
proof (induction n arbitrary: wrap)
  case 0
  show ?case by simp
next
  case (Suc n)
  have "enableTypeCoercion (Suc n) self_wrapped 0 wrap None =
     (case wrapped (self_wrapped ! 0) of
        None \<Rightarrow> Some (Inl TypeError)
      | Some child \<Rightarrow>
          (case enableTypeCoercion n self_wrapped child (Some 0) None of
             None \<Rightarrow> None
           | Some (Inl e) \<Rightarrow> Some (Inl e)
           | Some (Inr (h1, c1, inner)) \<Rightarrow>
               (case coerce_wrapped h1 wrap inner StepString of
                  (h2, schema) \<Rightarrow> Some (Inr (h2, cache_set (resolve_cache None) 0 schema, schema)))))"
    by (rule enableTypeCoercion_wrapper_eq [where k = "''optional''"])
       (simp_all add: self_wrapped_def node_def resolve_cache_def wrapper_kind_def)
  then show ?case by (simp add: self_wrapped_def Suc.IH [unfolded self_wrapped_def] del: enableTypeCoercion.simps)
qed

lemma self_entry_diverges:
  "resolve_cache copt 0 = None \<Longrightarrow> enableTypeCoercion n self_entry 0 wrap copt = None"
proof (induction n arbitrary: wrap copt)
  case 0
  show ?case by simp
next
  case (Suc n)
  have "enableTypeCoercion (Suc n) self_entry 0 wrap copt =
     (case entries (self_entry ! 0) of
        None \<Rightarrow> Some (Inl TypeError)
      | Some es \<Rightarrow>
          (case coerce_entries n self_entry (resolve_cache copt) es of
             None \<Rightarrow> None
           | Some (Inl e) \<Rightarrow> Some (Inl e)
           | Some (Inr (h1, cache1, es')) \<Rightarrow>
               (case wrap_schema (h1 @ [(self_entry ! 0)\<lparr>entries := Some es'\<rparr>]) wrap (length h1) of
                  (h3, schema) \<Rightarrow> Some (Inr (h3, cache_set cache1 0 schema, schema)))))"
    using Suc.prems
    by (intro enableTypeCoercion_object_eq [where k = "''object''"])
       (simp_all add: self_entry_def node_def leaf_step_def string_like_def wrapper_kind_def
          union_kind_def object_kind_def)
  moreover have "enableTypeCoercion n self_entry 0 None (Some (resolve_cache copt)) = None"
    using Suc.prems by (intro Suc.IH) (simp add: resolve_cache_def)
  ultimately show ?case
    by (simp add: self_entry_def del: enableTypeCoercion.simps)
qed

text \<open>
  C1 does not hold of the code. The cache is written only when a call is about
  to return (line 330) and is not handed to the recursion on \<^verbatim>\<open>wrapped\<close>, so a
  node that is reachable from itself is never found in it: on the optional
  schema that wraps itself, and on the object schema that is its own entry,
  the call runs out of every amount of fuel, that is, it never returns.
\<close>

theorem cyclic_schema_never_returns:
  "enableTypeCoercion n self_wrapped 0 None None = None \<and>
   enableTypeCoercion n self_entry 0 None None = None"
  using self_wrapped_diverges [of n None] self_entry_diverges [of None n None]
  by (simp add: resolve_cache_def)

section \<open>Stacked wrappers\<close>

lemma wrapper_stack_valid: "wrapper_stack h t ws b \<Longrightarrow> \<forall>x\<in>set ws. x < length h"
  by (induction ws arbitrary: t) (auto split: option.splits)

lemma wrapper_stack_extend:
  "wrapper_stack h t ws b \<Longrightarrow> wrapper_stack (h @ new) t ws b"
  by (induction ws arbitrary: t) (auto simp: nth_append split: option.splits)

lemma kinds_extend: "\<forall>x\<in>set ws. x < length h \<Longrightarrow> kinds (h @ new) ws = kinds h ws"
  by (simp add: kinds_def nth_append)

lemma parsers_extend: "\<forall>x\<in>set ws. x < length h \<Longrightarrow> parsers (h @ new) ws = parsers h ws"
  by (simp add: parsers_def nth_append)

lemma kinds_Cons: "kinds h (x # xs) = type (h ! x) # kinds h xs"
  by (simp add: kinds_def)

lemma parsers_Cons: "parsers h (x # xs) = parse (h ! x) # parsers h xs"
  by (simp add: parsers_def)

lemma stack_over_leaf:
  assumes leaf: "b < length h" "type (h ! b) = Some k" "leaf_step k = Some a"
  shows "\<lbrakk>wrapper_stack h t ws b; outer < length h; type (h ! outer) = Some ko; wrapper_kind ko\<rbrakk> \<Longrightarrow>
    \<exists>h' c' r ws'.
      enableTypeCoercion (Suc (length ws) + n) h t (Some outer) None = Some (Inr (h', c', r)) \<and>
      (\<exists>new. h' = h @ new) \<and> wrapper_stack h' r ws' b \<and> (\<forall>x\<in>set ws'. length h \<le> x) \<and>
      kinds h' ws' = kinds h (outer # ws) \<and>
      parsers h' ws' = map2 (#) (replicate (length ws) StepString @ [a]) (parsers h (outer # ws))"
proof (induction ws arbitrary: t outer ko)
  case Nil
  then have t: "t = b" by simp
  let ?cp = "(h ! outer)\<lparr>wrapped := Some b\<rparr>"
  let ?co = "(h ! outer)\<lparr>wrapped := Some b, parse := a # parse (h ! outer)\<rparr>"
  let ?h' = "h @ [?cp, ?co]"
  let ?r = "Suc (length h)"
  have miss: "resolve_cache None b = None" by (simp add: resolve_cache_def)
  have run: "enableTypeCoercion (Suc (length ([]::ref list)) + n) h t (Some outer) None =
      Some (Inr (?h', cache_set (resolve_cache None) b ?r, ?r))"
    using Nil.prems(2) unfolding t
    by (simp only: list.size add_0 plus_nat.simps enableTypeCoercion_leaf [OF miss leaf]
          coerce_wrapped_Some)
       (simp add: spread_def)
  have stack: "wrapper_stack ?h' ?r [?r] b"
    using Nil.prems by (simp add: nth_append)
  have k: "kinds ?h' [?r] = kinds h (outer # [])"
    by (simp add: kinds_def nth_append)
  have p: "parsers ?h' [?r] = map2 (#) (replicate (length ([]::ref list)) StepString @ [a]) (parsers h (outer # []))"
    by (simp add: parsers_def nth_append)
  have f: "\<forall>x\<in>set [?r]. length h \<le> x" by simp
  from run stack k p f show ?case by blast
next
  case (Cons w ws)
  from Cons.prems(1) obtain kw child where
    t: "t = w" and w: "w < length h" and kw: "type (h ! w) = Some kw" "wrapper_kind kw" and
    child: "wrapped (h ! w) = Some child" and rest: "wrapper_stack h child ws b"
    by (auto split: option.splits)
  from Cons.IH [OF rest w kw] obtain h1 c1 r1 ws1 new1 where
    run1: "enableTypeCoercion (Suc (length ws) + n) h child (Some w) None = Some (Inr (h1, c1, r1))" and
    ext1: "h1 = h @ new1" and stack1: "wrapper_stack h1 r1 ws1 b" and
    fresh1: "\<forall>x\<in>set ws1. length h \<le> x" and
    kinds1: "kinds h1 ws1 = kinds h (w # ws)" and
    parsers1: "parsers h1 ws1 = map2 (#) (replicate (length ws) StepString @ [a]) (parsers h (w # ws))"
    by blast
  let ?cp = "(h ! outer)\<lparr>wrapped := Some r1\<rparr>"
  let ?co = "(h ! outer)\<lparr>wrapped := Some r1, parse := StepString # parse (h ! outer)\<rparr>"
  let ?h' = "h1 @ [?cp, ?co]"
  let ?r = "Suc (length h1)"
  have miss: "resolve_cache None w = None" by (simp add: resolve_cache_def)
  have sp: "spread h1 outer = h ! outer"
    using Cons.prems(2) ext1 by (simp add: spread_def nth_append)
  have "enableTypeCoercion (Suc (Suc (length ws) + n)) h w (Some outer) None =
     (case coerce_wrapped h1 (Some outer) r1 StepString of
        (h2, schema) \<Rightarrow> Some (Inr (h2, cache_set (resolve_cache None) w schema, schema)))"
    using miss w kw(1) kw(2) wrapper_kind_not_leaf [OF kw(2)] child run1
    by (rule enableTypeCoercion_wrapper)
  then have run: "enableTypeCoercion (Suc (length (w # ws)) + n) h t (Some outer) None =
      Some (Inr (?h', cache_set (resolve_cache None) w ?r, ?r))"
    unfolding t by (simp add: coerce_wrapped_Some sp del: enableTypeCoercion.simps)
  have ext: "\<exists>new. ?h' = h @ new" using ext1 by simp
  have valid1: "\<forall>x\<in>set ws1. x < length h1" using stack1 by (rule wrapper_stack_valid)
  have stack: "wrapper_stack ?h' ?r (?r # ws1) b"
    using wrapper_stack_extend [OF stack1, of "[?cp, ?co]"] Cons.prems(3,4)
    by (simp add: nth_append)
  have f: "\<forall>x\<in>set (?r # ws1). length h \<le> x"
    using fresh1 ext1 by simp
  have k: "kinds ?h' (?r # ws1) = kinds h (outer # w # ws)"
    using kinds_extend [OF valid1, of "[?cp, ?co]"] kinds1
    by (simp add: kinds_Cons nth_append)
  have p: "parsers ?h' (?r # ws1) =
      map2 (#) (replicate (length (w # ws)) StepString @ [a]) (parsers h (outer # w # ws))"
    using parsers_extend [OF valid1, of "[?cp, ?co]"] parsers1
    by (simp add: parsers_Cons nth_append)
  from run ext stack f k p show ?case by blast
qed

text \<open>
  Where the innermost child is of a kind that attaches a step (string, literal,
  enum, undefined, number, boolean, date, bigint, array), the pending wrapper
  is spliced as intended: a wrapper-kind node at the top of a stack of
  wrappers over such a leaf, processed with an outer wrapper pending, returns
  a stack of new nodes over the same leaf, one copy of every wrapper, the
  outer one first, with the kinds in the order of the input, and each copy has
  exactly one step more than its original.
\<close>

lemma stacked_wrappers_spliced:
  assumes "wrapper_stack h t (w # ws) b"
    and "b < length h" "type (h ! b) = Some k" "leaf_step k = Some a"
    and "outer < length h" "type (h ! outer) = Some ko" "wrapper_kind ko"
  shows "\<exists>h' c' r ws'.
      enableTypeCoercion (Suc (Suc (length ws)) + n) h t (Some outer) None = Some (Inr (h', c', r)) \<and>
      (\<exists>new. h' = h @ new) \<and> wrapper_stack h' r ws' b \<and> (\<forall>x\<in>set ws'. length h \<le> x) \<and>
      kinds h' ws' = kinds h (outer # w # ws) \<and>
      parsers h' ws' =
        map2 (#) (replicate (Suc (length ws)) StepString @ [a]) (parsers h (outer # w # ws))"
  using stack_over_leaf [OF assms(2,3,4) assms(1) assms(5,6,7), of n] by simp

lemmas eval_defs2 = eval_defs kinds_def parsers_def returned_def stacked_picklist_def stacked_string_def

text \<open>
  C2 does not hold of the code. In \<^verbatim>\<open>optional(nullable(picklist))\<close> the
  nullable node, processed with the optional one pending, returns a copy of
  the optional wrapper whose \<^verbatim>\<open>wrapped\<close> is the picklist node itself: the
  picklist has no branch, and its call returned before \<^verbatim>\<open>options.wrap\<close> was
  read. The nullable wrapper is not in the output, neither of this call nor of
  the call on the whole schema, so the nesting of the input is not preserved
  and no step is attached for that wrapper.
\<close>

theorem stacked_picklist_drops_wrapper:
  "returned (enableTypeCoercion (Suc (Suc 0)) stacked_picklist 1 (Some 0) None) =
     Some (stacked_picklist @
             [(node ''optional'')\<lparr>wrapped := Some 2\<rparr>,
              (node ''optional'')\<lparr>wrapped := Some 2, parse := [StepString]\<rparr>], 4) \<and>
   wrapper_stack stacked_picklist 0 [0, 1] 2 \<and>
   kinds stacked_picklist [0, 1, 2] = [Some ''optional'', Some ''nullable'', Some ''picklist''] \<and>
   kinds (stacked_picklist @
             [(node ''optional'')\<lparr>wrapped := Some 2\<rparr>,
              (node ''optional'')\<lparr>wrapped := Some 2, parse := [StepString]\<rparr>]) [4, 2] =
     [Some ''optional'', Some ''picklist''] \<and>
   wrapper_stack (stacked_picklist @
             [(node ''optional'')\<lparr>wrapped := Some 2\<rparr>,
              (node ''optional'')\<lparr>wrapped := Some 2, parse := [StepString]\<rparr>]) 4 [4] 2 \<and>
   returned (enableTypeCoercion (Suc (Suc (Suc 0))) stacked_picklist 0 None None) =
     Some (stacked_picklist @
             [(node ''optional'')\<lparr>wrapped := Some 2\<rparr>,
              (node ''optional'')\<lparr>wrapped := Some 2, parse := [StepString]\<rparr>,
              (node ''optional'')\<lparr>wrapped := Some 2, parse := [StepString, StepString]\<rparr>], 5)"
  by (simp add: eval_defs2 eval_nat_numeral)

lemma stacked_wrappers_spliced_example:
  "wrapper_stack stacked_string 1 [1] 2 \<and> (2::nat) < length stacked_string \<and>
   type (stacked_string ! 2) = Some ''string'' \<and> leaf_step ''string'' = Some StepString \<and>
   (0::nat) < length stacked_string \<and> type (stacked_string ! 0) = Some ''optional'' \<and>
   wrapper_kind ''optional'' \<and>
   (\<exists>h' c' r ws'.
      enableTypeCoercion (Suc (Suc 0)) stacked_string 1 (Some 0) None = Some (Inr (h', c', r)) \<and>
      (\<exists>new. h' = stacked_string @ new) \<and> wrapper_stack h' r ws' 2 \<and>
      (\<forall>x\<in>set ws'. length stacked_string \<le> x) \<and>
      kinds h' ws' = [Some ''optional'', Some ''nullable''] \<and>
      parsers h' ws' = [[StepString], [StepString]])"
proof -
  have hyps: "wrapper_stack stacked_string 1 [1] 2 \<and> (2::nat) < length stacked_string \<and>
     type (stacked_string ! 2) = Some ''string'' \<and> leaf_step ''string'' = Some StepString \<and>
     (0::nat) < length stacked_string \<and> type (stacked_string ! 0) = Some ''optional'' \<and>
     wrapper_kind ''optional''"
    by (simp add: eval_defs2)
  have k: "kinds stacked_string [0, 1] = [Some ''optional'', Some ''nullable'']"
    by (simp add: eval_defs2)
  have p: "map2 (#) (replicate (Suc (length ([]::ref list))) StepString @ [StepString])
             (parsers stacked_string [0, 1]) = [[StepString], [StepString]]"
    by (simp add: eval_defs2)
  from hyps have
    "\<exists>h' c' r ws'.
      enableTypeCoercion (Suc (Suc (length ([]::ref list))) + 0) stacked_string 1 (Some 0) None = Some (Inr (h', c', r)) \<and>
      (\<exists>new. h' = stacked_string @ new) \<and> wrapper_stack h' r ws' 2 \<and>
      (\<forall>x\<in>set ws'. length stacked_string \<le> x) \<and>
      kinds h' ws' = kinds stacked_string (0 # 1 # []) \<and>
      parsers h' ws' =
        map2 (#) (replicate (Suc (length ([]::ref list))) StepString @ [StepString]) (parsers stacked_string (0 # 1 # []))"
    by (intro stacked_wrappers_spliced [where k = "''string''" and ko = "''optional''"]) simp_all
  then have "\<exists>h' c' r ws'.
      enableTypeCoercion (Suc (Suc 0)) stacked_string 1 (Some 0) None = Some (Inr (h', c', r)) \<and>
      (\<exists>new. h' = stacked_string @ new) \<and> wrapper_stack h' r ws' 2 \<and>
      (\<forall>x\<in>set ws'. length stacked_string \<le> x) \<and>
      kinds h' ws' = [Some ''optional'', Some ''nullable''] \<and>
      parsers h' ws' = [[StepString], [StepString]]"
    unfolding k p by (simp del: enableTypeCoercion.simps)
  with hyps show ?thesis by blast
qed

end
